theory Spec2Isabelle
  imports Complex_Main
begin

section \<open>Data model\<close>

text \<open>
  The \<open>TestSession\<close> interface of \<open>src/utils/testTimer.ts\<close> (and its copy in
  \<open>src/components/testTimer.ts\<close>). The source keeps \<open>started_at\<close>, \<open>submitted_at\<close> and
  \<open>created_at\<close> as ISO strings and only ever reads them through
  \<open>new Date(...).getTime()\<close>; the record holds that number of milliseconds. The row
  \<open>id\<close> is an opaque identifier handed out by the store and is a natural number here.
  \<open>duration_minutes\<close> is a whole number of minutes (the assessment form stores
  \<open>parseInt\<close> of its input).
\<close>

record TestSession =
  id :: nat
  assessment_id :: string
  student_id :: string
  started_at :: int
  submitted_at :: "int option"
  duration_minutes :: int
  is_completed :: bool
  created_at :: int

section \<open>Time authority\<close>

text \<open>
  \<open>calculateRemainingTime\<close> of \<open>src/utils/testTimer.ts\<close>. \<open>Date.now()\<close> is the
  parameter \<open>now\<close>. The division is the division of JavaScript numbers, so it is taken
  in the reals before \<open>Math.ceil\<close>.
\<close>

definition calculateRemainingTime :: "TestSession \<Rightarrow> int \<Rightarrow> int" where
  "calculateRemainingTime session now =
     (let startTime = started_at session;
          durationMs = duration_minutes session * 60 * 1000;
          endTime = startTime + durationMs;
          remaining = max 0 (endTime - now)
      in \<lceil>real_of_int remaining / 1000\<rceil>)"





section \<open>The remote data service as seen by the client\<close>

text \<open>
  Every call of the Supabase client resolves to an object \<open>{ data, error }\<close>; the
  awaited promise may also reject, which the \<open>try\<close>/\<open>catch\<close> blocks of the source
  handle. \<open>PostgrestError\<close> keeps the fields the source reads: \<open>code\<close>, \<open>details\<close>
  (which may be absent) and \<open>message\<close>.
\<close>

datatype PostgrestError = PostgrestError (code: string) (details: "string option") (message: string)

text \<open>What a \<open>throw\<close> carries: \<open>new Error(msg)\<close> or an error object of the client.\<close>

datatype thrown = JsError string | Postgrest PostgrestError

datatype 'a response = Response "'a option" "PostgrestError option" | Rejected thrown

datatype User = User (user_id: string)

text \<open>\<open>supabase.auth.getUser()\<close>: \<open>{ data: { user }, error }\<close>.\<close>

datatype auth_response = AuthResponse (auth_user: "User option") (auth_error: "string option") | AuthRejected thrown

text \<open>
  A query on \<open>test_sessions\<close> is a chain of \<open>.eq(column, value)\<close> filters closed by
  \<open>.maybeSingle()\<close> or \<open>.single()\<close>.
\<close>

datatype column_value = StrVal string | BoolVal bool | IdVal nat

datatype eq_filter = Eq string column_value

datatype cardinality = MaybeSingle | Single

text \<open>
  The object passed to \<open>.insert(...)\<close>. Its \<open>started_at\<close> is
  \<open>new Date().toISOString()\<close>, the client's clock at the call: the interpreters below
  stamp it.
\<close>

record SessionInsert =
  ins_assessment_id :: string
  ins_student_id :: string
  ins_duration_minutes :: int
  ins_is_completed :: bool

text \<open>
  The \<open>submissions\<close> row written by \<open>submitTest\<close> (\<open>TestTaking.tsx\<close>, lines 164-178).
  \<open>answers\<close> is the \<open>Record<string, string>\<close> of the component, kept as the list of its
  entries.
\<close>

record Submission =
  sub_id :: nat
  sub_assessment_id :: string
  sub_student_id :: string
  test_session_id :: nat
  sub_answers :: "(string \<times> string) list"
  mcq_score :: int
  theory_score :: "int option"
  total_score :: int
  is_auto_submitted :: bool
  sub_submitted_at :: int

text \<open>
  The object passed to \<open>.from('submissions').insert(...)\<close>; \<open>submitted_at\<close> is again
  the client's clock at the call.
\<close>

record SubmissionInsert =
  new_assessment_id :: string
  new_student_id :: string
  new_test_session_id :: nat
  new_answers :: "(string \<times> string) list"
  new_mcq_score :: int
  new_theory_score :: "int option"
  new_total_score :: int
  new_is_auto_submitted :: bool

text \<open>
  The object passed to \<open>.update(...)\<close> by \<open>completeTestSession\<close>:
  \<open>{ submitted_at: new Date().toISOString(), is_completed: true }\<close>, the timestamp
  stamped as above.
\<close>

record SessionUpdate =
  upd_is_completed :: bool

text \<open>
  What \<open>submitTest\<close> does to the page: the state setters it calls, \<open>alert\<close>, and
  \<open>navigate(`/results/${submission.id}`)\<close>.
\<close>

datatype ui_effect =
    SetSubmitting bool
  | SetError string
  | Alert string
  | NavigateResults nat

text \<open>
  An asynchronous function of the source is a tree of requests: each \<open>await\<close> is a node
  whose continuation takes what the awaited promise settled to. \<open>Return\<close> is \<open>return\<close>,
  \<open>Throw\<close> is an exception that leaves the function, \<open>SetTimeout ms\<close> is
  \<open>await new Promise(resolve => setTimeout(resolve, ms))\<close>, and \<open>Effect\<close> is a
  synchronous call that changes the page.
\<close>

datatype 'r proc =
    Return 'r
  | Throw thrown
  | GetUser "auth_response \<Rightarrow> 'r proc"
  | SelectSession "eq_filter list" cardinality "TestSession response \<Rightarrow> 'r proc"
  | InsertSession SessionInsert "TestSession response \<Rightarrow> 'r proc"
  | UpdateSession SessionUpdate "eq_filter list" "unit response \<Rightarrow> 'r proc"
  | InsertSubmission SubmissionInsert "Submission response \<Rightarrow> 'r proc"
  | SetTimeout nat "'r proc"
  | Effect ui_effect "'r proc"

text \<open>
  Sequencing (\<open>await f(); rest\<close>), \<open>try { p } catch (e) { h e }\<close> and
  \<open>try { p } finally { q }\<close> on such trees.
\<close>

primrec bind :: "'a proc \<Rightarrow> ('a \<Rightarrow> 'b proc) \<Rightarrow> 'b proc" where
  "bind (Return x) f = f x"
| "bind (Throw e) f = Throw e"
| "bind (GetUser k) f = GetUser (\<lambda>r. bind (k r) f)"
| "bind (SelectSession fs c k) f = SelectSession fs c (\<lambda>r. bind (k r) f)"
| "bind (InsertSession row k) f = InsertSession row (\<lambda>r. bind (k r) f)"
| "bind (UpdateSession upd fs k) f = UpdateSession upd fs (\<lambda>r. bind (k r) f)"
| "bind (InsertSubmission sub k) f = InsertSubmission sub (\<lambda>r. bind (k r) f)"
| "bind (SetTimeout ms p) f = SetTimeout ms (bind p f)"
| "bind (Effect eff p) f = Effect eff (bind p f)"

primrec try_catch :: "'a proc \<Rightarrow> (thrown \<Rightarrow> 'a proc) \<Rightarrow> 'a proc" where
  "try_catch (Return x) h = Return x"
| "try_catch (Throw e) h = h e"
| "try_catch (GetUser k) h = GetUser (\<lambda>r. try_catch (k r) h)"
| "try_catch (SelectSession fs c k) h = SelectSession fs c (\<lambda>r. try_catch (k r) h)"
| "try_catch (InsertSession row k) h = InsertSession row (\<lambda>r. try_catch (k r) h)"
| "try_catch (UpdateSession upd fs k) h = UpdateSession upd fs (\<lambda>r. try_catch (k r) h)"
| "try_catch (InsertSubmission sub k) h = InsertSubmission sub (\<lambda>r. try_catch (k r) h)"
| "try_catch (SetTimeout ms p) h = SetTimeout ms (try_catch p h)"
| "try_catch (Effect eff p) h = Effect eff (try_catch p h)"

primrec try_finally :: "'a proc \<Rightarrow> unit proc \<Rightarrow> 'a proc" where
  "try_finally (Return x) q = bind q (\<lambda>_. Return x)"
| "try_finally (Throw e) q = bind q (\<lambda>_. Throw e)"
| "try_finally (GetUser k) q = GetUser (\<lambda>r. try_finally (k r) q)"
| "try_finally (SelectSession fs c k) q = SelectSession fs c (\<lambda>r. try_finally (k r) q)"
| "try_finally (InsertSession row k) q = InsertSession row (\<lambda>r. try_finally (k r) q)"
| "try_finally (UpdateSession upd fs k) q = UpdateSession upd fs (\<lambda>r. try_finally (k r) q)"
| "try_finally (InsertSubmission sub k) q = InsertSubmission sub (\<lambda>r. try_finally (k r) q)"
| "try_finally (SetTimeout ms p) q = SetTimeout ms (try_finally p q)"
| "try_finally (Effect eff p) q = Effect eff (try_finally p q)"

section \<open>Session resolver\<close>

text \<open>\<open>haystack.includes(needle)\<close> of JavaScript strings.\<close>

fun starts_with :: "string \<Rightarrow> string \<Rightarrow> bool" where
  "starts_with _ [] = True"
| "starts_with [] (n # ns) = False"
| "starts_with (c # cs) (n # ns) = (c = n \<and> starts_with cs ns)"

fun str_includes :: "string \<Rightarrow> string \<Rightarrow> bool" where
  "str_includes [] needle = (needle = [])"
| "str_includes (c # cs) needle = (starts_with (c # cs) needle \<or> str_includes cs needle)"

text \<open>
  The conflict test of the retry loop:
  \<open>createError.code === '23505' || createError.details?.includes('duplicate')\<close>.
\<close>

definition isConflict :: "PostgrestError \<Rightarrow> bool" where
  "isConflict createError =
     (code createError = ''23505'' \<or>
      (case details createError of None \<Rightarrow> False | Some d \<Rightarrow> str_includes d ''duplicate''))"

text \<open>
  The three \<open>.eq\<close> filters of every lookup in \<open>getOrCreateTestSession\<close> (both
  versions).
\<close>

definition activeSessionQuery :: "string \<Rightarrow> string \<Rightarrow> eq_filter list" where
  "activeSessionQuery assessmentId userId =
     [Eq ''assessment_id'' (StrVal assessmentId),
      Eq ''student_id'' (StrVal userId),
      Eq ''is_completed'' (BoolVal False)]"

definition newSessionRow :: "string \<Rightarrow> string \<Rightarrow> int \<Rightarrow> SessionInsert" where
  "newSessionRow assessmentId userId durationMinutes =
     \<lparr>ins_assessment_id = assessmentId, ins_student_id = userId,
      ins_duration_minutes = durationMinutes, ins_is_completed = False\<rparr>"

text \<open>\<open>200 * Math.pow(2, attempt - 1)\<close> milliseconds.\<close>

definition backoffMs :: "nat \<Rightarrow> nat" where
  "backoffMs attempt = 200 * 2 ^ (attempt - 1)"

text \<open>
  STEP 3 of \<open>getOrCreateTestSession\<close> (\<open>src/utils/testTimer.ts\<close>, lines 136-163):
  reached when the loop ends with \<open>session\<close> still \<open>null\<close>.
\<close>

definition finalRetrieval :: "string \<Rightarrow> string \<Rightarrow> thrown option \<Rightarrow> TestSession proc" where
  "finalRetrieval assessmentId userId lastError =
     SelectSession (activeSessionQuery assessmentId userId) MaybeSingle (\<lambda>r.
       case r of
         Rejected ex \<Rightarrow> Throw ex
       | Response finalSession finalError \<Rightarrow>
           (case finalError of
              Some e \<Rightarrow> Throw (Postgrest e)
            | None \<Rightarrow>
                (case finalSession of
                   Some s \<Rightarrow> Return s
                 | None \<Rightarrow>
                     Throw (case lastError of
                              Some e \<Rightarrow> e
                            | None \<Rightarrow> JsError ''Failed to create or retrieve test session''))))"

text \<open>
  STEP 2, the loop \<open>for (let attempt = 1; attempt <= 3; attempt++)\<close> (lines 57-134),
  entered at \<open>attempt\<close> with the current \<open>lastError\<close>. \<open>onCatch\<close> is the
  \<open>catch (error)\<close> block of the loop body: it receives whatever is thrown inside the
  \<open>try\<close>, including the \<open>throw createError\<close> of line 116. \<open>break\<close> leaves the loop
  with \<open>session\<close> set, so the function returns it; \<open>continue\<close> and the end of the body
  go to the next attempt.
\<close>

function createLoop :: "string \<Rightarrow> string \<Rightarrow> int \<Rightarrow> nat \<Rightarrow> thrown option \<Rightarrow> TestSession proc" where
  "createLoop assessmentId userId durationMinutes attempt lastError =
     (if attempt \<le> 3 then
        (let onCatch = (\<lambda>err.
               if attempt < 3
               then SetTimeout (backoffMs attempt)
                      (createLoop assessmentId userId durationMinutes (attempt + 1) (Some err))
               else createLoop assessmentId userId durationMinutes (attempt + 1) (Some err))
         in InsertSession (newSessionRow assessmentId userId durationMinutes) (\<lambda>r.
              case r of
                Rejected ex \<Rightarrow> onCatch ex
              | Response newSession createError \<Rightarrow>
                  (case createError of
                     Some ce \<Rightarrow>
                       if isConflict ce
                       then SetTimeout (backoffMs attempt)
                              (SelectSession (activeSessionQuery assessmentId userId) MaybeSingle (\<lambda>q.
                                 case q of
                                   Rejected ex \<Rightarrow> onCatch ex
                                 | Response retriedSession retryFetchError \<Rightarrow>
                                     (case (retryFetchError, retriedSession) of
                                        (None, Some s) \<Rightarrow> Return s
                                      | _ \<Rightarrow> createLoop assessmentId userId durationMinutes
                                               (attempt + 1) (Some (Postgrest ce)))))
                       else onCatch (Postgrest ce)
                   | None \<Rightarrow>
                       (case newSession of
                          Some s \<Rightarrow> Return s
                        | None \<Rightarrow> createLoop assessmentId userId durationMinutes
                                     (attempt + 1) lastError))))
      else finalRetrieval assessmentId userId lastError)"
  by pat_completeness auto
termination
  by (relation "measure (\<lambda>(a, u, d, attempt, e). 4 - attempt)") auto

declare createLoop.simps [simp del]

text \<open>\<open>getOrCreateTestSession\<close> of \<open>src/utils/testTimer.ts\<close> (lines 20-170).\<close>

definition getOrCreateTestSession :: "string \<Rightarrow> int \<Rightarrow> TestSession proc" where
  "getOrCreateTestSession assessmentId durationMinutes =
     GetUser (\<lambda>a.
       case a of
         AuthRejected ex \<Rightarrow> Throw ex
       | AuthResponse user authError \<Rightarrow>
           (case user of
              None \<Rightarrow> Throw (JsError ''User not authenticated'')
            | Some u \<Rightarrow>
                SelectSession (activeSessionQuery assessmentId (user_id u)) MaybeSingle (\<lambda>r.
                  case r of
                    Rejected ex \<Rightarrow> Throw ex
                  | Response existingSession fetchError \<Rightarrow>
                      (let proceed =
                             (case existingSession of
                                Some s \<Rightarrow> Return s
                              | None \<Rightarrow> createLoop assessmentId (user_id u) durationMinutes 1 None)
                       in case fetchError of
                            None \<Rightarrow> proceed
                          | Some fe \<Rightarrow>
                              if code fe \<noteq> ''PGRST116'' then Throw (Postgrest fe) else proceed))))"

text \<open>
  \<open>getOrCreateTestSession\<close> of \<open>src/components/testTimer.ts\<close> (lines 19-76), the
  version without a retry loop. \<open>studentId\<close> is its optional third parameter
  (\<open>studentId || user.id\<close>: an absent or empty string falls back to the user's id). The
  error of the lookup is not read at all.
\<close>

definition getOrCreateTestSession_components ::
    "string \<Rightarrow> int \<Rightarrow> string option \<Rightarrow> TestSession proc" where
  "getOrCreateTestSession_components assessmentId durationMinutes studentId =
     GetUser (\<lambda>a.
       case a of
         AuthRejected ex \<Rightarrow> Throw ex
       | AuthResponse user authError \<Rightarrow>
           (case (authError, user) of
              (None, Some u) \<Rightarrow>
                (let userId = (case studentId of
                                 None \<Rightarrow> user_id u
                               | Some sid \<Rightarrow> if sid = [] then user_id u else sid)
                 in SelectSession (activeSessionQuery assessmentId userId) Single (\<lambda>r.
                      case r of
                        Rejected ex \<Rightarrow> Throw ex
                      | Response existingSession fetchError \<Rightarrow>
                          (case existingSession of
                             Some s \<Rightarrow> Return s
                           | None \<Rightarrow>
                               InsertSession (newSessionRow assessmentId userId durationMinutes) (\<lambda>c.
                                 case c of
                                   Rejected ex \<Rightarrow> Throw ex
                                 | Response newSession createError \<Rightarrow>
                                     (case (createError, newSession) of
                                        (None, Some s) \<Rightarrow> Return s
                                      | _ \<Rightarrow> Throw (JsError ''Failed to create test session''))))))
            | _ \<Rightarrow> Throw (JsError ''Not authenticated'')))"

section \<open>Running a resolver against an arbitrary service\<close>

text \<open>
  The most general environment: the service answers the \<open>k\<close>-th lookup and the
  \<open>k\<close>-th insert (counted from 0) with whatever the record below holds, so every behaviour
  of the store, the network and other clients is covered. The run records the calls the
  client made, in order.
\<close>

datatype event =
    EvGetUser
  | EvSelect "eq_filter list" cardinality
  | EvInsert SessionInsert
  | EvUpdate SessionUpdate "eq_filter list"
  | EvInsertSubmission SubmissionInsert
  | EvTimeout nat
  | EvEffect ui_effect

text \<open>
  \<open>select_result\<close> answers the lookups and \<open>insert_result\<close> the inserts into
  \<open>test_sessions\<close>; \<open>update_result\<close> and \<open>submission_result\<close> answer the other
  writes, counted together with the inserts.
\<close>

record service =
  getUser_result :: auth_response
  select_result :: "nat \<Rightarrow> TestSession response"
  insert_result :: "nat \<Rightarrow> TestSession response"
  update_result :: "nat \<Rightarrow> unit response"
  submission_result :: "nat \<Rightarrow> Submission response"

primrec exec :: "'r proc \<Rightarrow> service \<Rightarrow> nat \<Rightarrow> nat \<Rightarrow> event list \<times> (thrown + 'r)" where
  "exec (Return x) orc i j = ([], Inr x)"
| "exec (Throw e) orc i j = ([], Inl e)"
| "exec (GetUser k) orc i j =
     (let (t, res) = exec (k (getUser_result orc)) orc i j in (EvGetUser # t, res))"
| "exec (SelectSession fs c k) orc i j =
     (let (t, res) = exec (k (select_result orc i)) orc (Suc i) j in (EvSelect fs c # t, res))"
| "exec (InsertSession row k) orc i j =
     (let (t, res) = exec (k (insert_result orc j)) orc i (Suc j) in (EvInsert row # t, res))"
| "exec (UpdateSession upd fs k) orc i j =
     (let (t, res) = exec (k (update_result orc j)) orc i (Suc j) in (EvUpdate upd fs # t, res))"
| "exec (InsertSubmission sub k) orc i j =
     (let (t, res) = exec (k (submission_result orc j)) orc i (Suc j)
      in (EvInsertSubmission sub # t, res))"
| "exec (SetTimeout ms p) orc i j =
     (let (t, res) = exec p orc i j in (EvTimeout ms # t, res))"
| "exec (Effect eff p) orc i j =
     (let (t, res) = exec p orc i j in (EvEffect eff # t, res))"

definition run :: "'r proc \<Rightarrow> service \<Rightarrow> event list \<times> (thrown + 'r)" where
  "run p orc = exec p orc 0 0"

definition inserts_of :: "event list \<Rightarrow> nat" where
  "inserts_of t = length (filter (\<lambda>e. case e of EvInsert _ \<Rightarrow> True | _ \<Rightarrow> False) t)"

definition waits_of :: "event list \<Rightarrow> nat list" where
  "waits_of t = concat (map (\<lambda>e. case e of EvTimeout ms \<Rightarrow> [ms] | _ \<Rightarrow> []) t)"

section \<open>Submission finalizer\<close>

text \<open>
  \<open>completeTestSession\<close> of \<open>src/utils/testTimer.ts\<close> (lines 201-220); the
  \<open>catch\<close> logs and rethrows.
\<close>

definition completeTestSession :: "nat \<Rightarrow> unit proc" where
  "completeTestSession sessionId =
     UpdateSession \<lparr>upd_is_completed = True\<rparr> [Eq ''id'' (IdVal sessionId)] (\<lambda>r.
       case r of
         Rejected ex \<Rightarrow> Throw ex
       | Response d err \<Rightarrow>
           (case err of
              Some e \<Rightarrow> Throw (Postgrest e)
            | None \<Rightarrow> Return ()))"

text \<open>
  The part of \<open>Question\<close> that \<open>submitTest\<close> reads itself (\<open>q.marks\<close>); the type is
  declared in \<open>supabaseClient\<close>.
\<close>

record Question =
  question_id :: string
  marks :: int

text \<open>\<open>Math.round\<close>: the nearest integer, halves upwards.\<close>

definition js_round :: "real \<Rightarrow> int" where
  "js_round x = \<lfloor>x + 1 / 2\<rfloor>"

text \<open>\<open>error.message || 'Unknown error'\<close>.\<close>

definition messageOrUnknown :: "thrown \<Rightarrow> string" where
  "messageOrUnknown err =
     (let m = (case err of JsError msg \<Rightarrow> msg | Postgrest e \<Rightarrow> message e)
      in if m = [] then ''Unknown error'' else m)"

text \<open>
  \<open>submitTest\<close> of \<open>TestTaking.tsx\<close> (lines 146-198). What the closure captures is
  passed in: \<open>testSession\<close>, \<open>questions\<close>, \<open>answers\<close>, the route's \<open>assessmentId\<close>
  and the \<open>user\<close> prop. \<open>autoGradeMCQ\<close> is imported from \<open>utils/autoGrading\<close> and is
  a parameter here. Reading \<open>submission.id\<close> of a \<open>null\<close> row throws a \<open>TypeError\<close>,
  which the \<open>catch\<close> takes like any other exception.

  \<open>submitTest_try\<close> is the body of the \<open>try\<close> block (lines 152-190),
  \<open>submissionRow\<close> the object it inserts, with the score computed in lines 156-161, and
  \<open>submitTest_catch\<close> the \<open>catch\<close> block (lines 191-194).
\<close>

definition submissionRow ::
    "TestSession \<Rightarrow> Question list \<Rightarrow> (string \<times> string) list \<Rightarrow> string \<Rightarrow> User \<Rightarrow>
     (Question list \<Rightarrow> (string \<times> string) list \<Rightarrow> int) \<Rightarrow> bool \<Rightarrow> SubmissionInsert" where
  "submissionRow session questions answers assessmentId user autoGradeMCQ isAutoSubmit =
     (let mcqScore = autoGradeMCQ questions answers;
          totalMarks = sum_list (map marks questions);
          percentageScore =
            (if totalMarks > 0
             then js_round (real_of_int mcqScore / real_of_int totalMarks * 100)
             else 0)
      in \<lparr>new_assessment_id = assessmentId,
          new_student_id = user_id user,
          new_test_session_id = id session,
          new_answers = answers,
          new_mcq_score = mcqScore,
          new_theory_score = None,
          new_total_score = percentageScore,
          new_is_auto_submitted = isAutoSubmit\<rparr>)"

definition submitTest_try ::
    "TestSession \<Rightarrow> Question list \<Rightarrow> (string \<times> string) list \<Rightarrow> string \<Rightarrow> User \<Rightarrow>
     (Question list \<Rightarrow> (string \<times> string) list \<Rightarrow> int) \<Rightarrow> bool \<Rightarrow> unit proc" where
  "submitTest_try session questions answers assessmentId user autoGradeMCQ isAutoSubmit =
     bind (completeTestSession (id session)) (\<lambda>_.
       InsertSubmission
         (submissionRow session questions answers assessmentId user autoGradeMCQ isAutoSubmit)
         (\<lambda>r.
            case r of
              Rejected ex \<Rightarrow> Throw ex
            | Response submission submitError \<Rightarrow>
                (case submitError of
                   Some e \<Rightarrow> Throw (Postgrest e)
                 | None \<Rightarrow>
                     Effect (Alert (if isAutoSubmit
                                    then ''Test auto-submitted due to time expiry!''
                                    else ''Test submitted successfully!''))
                       (case submission of
                          Some sub \<Rightarrow> Effect (NavigateResults (sub_id sub)) (Return ())
                        | None \<Rightarrow>
                            Throw (JsError ''Cannot read properties of null (reading id)'')))))"

definition submitTest_catch :: "thrown \<Rightarrow> unit proc" where
  "submitTest_catch err =
     Effect (SetError (''Error submitting test: '' @ messageOrUnknown err))
       (Effect (Alert ''Error submitting test. Please try again.'') (Return ()))"

definition submitTest ::
    "TestSession option \<Rightarrow> Question list \<Rightarrow> (string \<times> string) list \<Rightarrow> string \<Rightarrow> User \<Rightarrow>
     (Question list \<Rightarrow> (string \<times> string) list \<Rightarrow> int) \<Rightarrow> bool \<Rightarrow> unit proc" where
  "submitTest testSession questions answers assessmentId user autoGradeMCQ isAutoSubmit =
     (case testSession of
        None \<Rightarrow> Return ()
      | Some session \<Rightarrow>
          Effect (SetSubmitting True)
            (try_finally
               (try_catch
                  (submitTest_try session questions answers assessmentId user autoGradeMCQ
                     isAutoSubmit)
                  submitTest_catch)
               (Effect (SetSubmitting False) (Return ()))))"

section \<open>The store\<close>

text \<open>
  Modelled from the spec: the remote data service is not part of the repository. It
  holds the rows of \<open>test_sessions\<close> and \<open>submissions\<close>, hands out row ids, answers
  a query with the rows that pass every \<open>.eq\<close> filter, and enforces the uniqueness
  constraint of the specification: at most one session that is not completed per
  (assessment, student), a second insert being refused with a conflict (code 23505).
  \<open>clock\<close> is the time that \<open>new Date()\<close> reads.
\<close>

record store =
  sessions :: "TestSession list"
  submissions :: "Submission list"
  next_id :: nat
  clock :: int

definition column :: "TestSession \<Rightarrow> string \<Rightarrow> column_value option" where
  "column row name =
     (if name = ''id'' then Some (IdVal (id row))
      else if name = ''assessment_id'' then Some (StrVal (assessment_id row))
      else if name = ''student_id'' then Some (StrVal (student_id row))
      else if name = ''is_completed'' then Some (BoolVal (is_completed row))
      else None)"

fun matches :: "TestSession \<Rightarrow> eq_filter \<Rightarrow> bool" where
  "matches row (Eq name v) = (column row name = Some v)"

definition select_rows :: "eq_filter list \<Rightarrow> TestSession list \<Rightarrow> TestSession list" where
  "select_rows fs rows = filter (\<lambda>row. list_all (matches row) fs) rows"

definition zero_rows :: PostgrestError where
  "zero_rows = PostgrestError ''PGRST116'' (Some ''The result contains 0 rows'')
     ''JSON object requested, multiple (or no) rows returned''"

definition multiple_rows :: PostgrestError where
  "multiple_rows = PostgrestError ''PGRST116'' (Some ''The result contains multiple rows'')
     ''JSON object requested, multiple (or no) rows returned''"

text \<open>
  Modelled from the spec: \<open>.maybeSingle()\<close> answers no row with \<open>data: null\<close> and no
  error, \<open>.single()\<close> answers it with the error PGRST116; both answer more than one
  row with PGRST116.
\<close>

definition store_select :: "eq_filter list \<Rightarrow> cardinality \<Rightarrow> store \<Rightarrow> TestSession response" where
  "store_select fs c st =
     (case select_rows fs (sessions st) of
        [] \<Rightarrow> (case c of MaybeSingle \<Rightarrow> Response None None
                 | Single \<Rightarrow> Response None (Some zero_rows))
      | [row] \<Rightarrow> Response (Some row) None
      | _ \<Rightarrow> Response None (Some multiple_rows))"

definition active_for :: "string \<Rightarrow> string \<Rightarrow> TestSession \<Rightarrow> bool" where
  "active_for assessmentId studentId row =
     (assessment_id row = assessmentId \<and> student_id row = studentId \<and> \<not> is_completed row)"

definition unique_violation :: PostgrestError where
  "unique_violation = PostgrestError ''23505'' (Some ''Key (assessment_id, student_id) already exists.'')
     ''duplicate key value violates unique constraint''"

text \<open>
  Modelled from the spec: \<open>createSession\<close> with the uniqueness constraint. The new row
  gets the next id and the current time.
\<close>

definition store_insert :: "SessionInsert \<Rightarrow> store \<Rightarrow> TestSession response \<times> store" where
  "store_insert new st =
     (if \<not> ins_is_completed new \<and>
         list_ex (active_for (ins_assessment_id new) (ins_student_id new)) (sessions st)
      then (Response None (Some unique_violation), st)
      else (let row = \<lparr>id = next_id st,
                        assessment_id = ins_assessment_id new,
                        student_id = ins_student_id new,
                        started_at = clock st,
                        submitted_at = None,
                        duration_minutes = ins_duration_minutes new,
                        is_completed = ins_is_completed new,
                        created_at = clock st\<rparr>
            in (Response (Some row) None,
                st\<lparr>sessions := sessions st @ [row], next_id := Suc (next_id st)\<rparr>)))"

text \<open>Modelled from the spec: \<open>completeSession\<close>, an update of the rows that pass the filters.\<close>

definition store_update :: "SessionUpdate \<Rightarrow> eq_filter list \<Rightarrow> store \<Rightarrow> unit response \<times> store" where
  "store_update upd fs st =
     (Response None None,
      st\<lparr>sessions :=
           map (\<lambda>row. if list_all (matches row) fs
                      then row\<lparr>submitted_at := Some (clock st),
                               is_completed := upd_is_completed upd\<rparr>
                      else row)
             (sessions st)\<rparr>)"

text \<open>Modelled from the spec: \<open>createSubmission\<close>.\<close>

definition store_insert_submission ::
    "SubmissionInsert \<Rightarrow> store \<Rightarrow> Submission response \<times> store" where
  "store_insert_submission new st =
     (let sub = \<lparr>sub_id = next_id st,
                  sub_assessment_id = new_assessment_id new,
                  sub_student_id = new_student_id new,
                  test_session_id = new_test_session_id new,
                  sub_answers = new_answers new,
                  mcq_score = new_mcq_score new,
                  theory_score = new_theory_score new,
                  total_score = new_total_score new,
                  is_auto_submitted = new_is_auto_submitted new,
                  sub_submitted_at = clock st\<rparr>
      in (Response (Some sub) None,
          st\<lparr>submissions := submissions st @ [sub], next_id := Suc (next_id st)\<rparr>))"

text \<open>
  One client running against the store. \<open>current_user\<close> is the signed-in user, if any.
  \<open>fault n\<close>, when present, is the error with which the \<open>n\<close>-th request to a table
  (counted from 0) fails instead of being carried out: a refused write, a broken
  connection. A timeout lets the clock advance.
\<close>

record env =
  current_user :: "User option"
  fault :: "nat \<Rightarrow> PostgrestError option"

primrec run_store ::
    "'r proc \<Rightarrow> env \<Rightarrow> nat \<Rightarrow> store \<Rightarrow> event list \<times> (thrown + 'r) \<times> store" where
  "run_store (Return x) ev n st = ([], Inr x, st)"
| "run_store (Throw e) ev n st = ([], Inl e, st)"
| "run_store (GetUser k) ev n st =
     (let r = (case current_user ev of
                 Some u \<Rightarrow> AuthResponse (Some u) None
               | None \<Rightarrow> AuthResponse None (Some ''Auth session missing!''));
          (t, res) = run_store (k r) ev n st
      in (EvGetUser # t, res))"
| "run_store (SelectSession fs c k) ev n st =
     (let r = (case fault ev n of
                 Some e \<Rightarrow> Response None (Some e)
               | None \<Rightarrow> store_select fs c st);
          (t, res) = run_store (k r) ev (Suc n) st
      in (EvSelect fs c # t, res))"
| "run_store (InsertSession row k) ev n st =
     (let (r, st') = (case fault ev n of
                        Some e \<Rightarrow> (Response None (Some e), st)
                      | None \<Rightarrow> store_insert row st);
          (t, res) = run_store (k r) ev (Suc n) st'
      in (EvInsert row # t, res))"
| "run_store (UpdateSession upd fs k) ev n st =
     (let (r, st') = (case fault ev n of
                        Some e \<Rightarrow> (Response None (Some e), st)
                      | None \<Rightarrow> store_update upd fs st);
          (t, res) = run_store (k r) ev (Suc n) st'
      in (EvUpdate upd fs # t, res))"
| "run_store (InsertSubmission sub k) ev n st =
     (let (r, st') = (case fault ev n of
                        Some e \<Rightarrow> (Response None (Some e), st)
                      | None \<Rightarrow> store_insert_submission sub st);
          (t, res) = run_store (k r) ev (Suc n) st'
      in (EvInsertSubmission sub # t, res))"
| "run_store (SetTimeout ms p) ev n st =
     (let (t, res) = run_store p ev n (st\<lparr>clock := clock st + int ms\<rparr>)
      in (EvTimeout ms # t, res))"
| "run_store (Effect eff p) ev n st =
     (let (t, res) = run_store p ev n st in (EvEffect eff # t, res))"

section \<open>Where a returned session comes from\<close>

text \<open>
  \<open>resumes a u G p\<close>: every session that \<open>p\<close> returns is one of \<open>G\<close> or was handed
  to it in the answer to a lookup with the filters \<open>activeSessionQuery a u\<close> or to an
  insert of \<open>newSessionRow a u d\<close>; \<open>p\<close> makes no other request to the store. \<open>u\<close> is
  the id of the signed-in user.
\<close>

fun rows_of :: "TestSession response \<Rightarrow> TestSession set" where
  "rows_of (Response (Some row) e) = {row}"
| "rows_of (Response None e) = {}"
| "rows_of (Rejected ex) = {}"

fun user_is :: "string \<Rightarrow> auth_response \<Rightarrow> bool" where
  "user_is u (AuthResponse (Some usr) e) = (user_id usr = u)"
| "user_is u (AuthResponse None e) = True"
| "user_is u (AuthRejected ex) = True"

inductive resumes :: "string \<Rightarrow> string \<Rightarrow> TestSession set \<Rightarrow> TestSession proc \<Rightarrow> bool"
  for a u where
  resumes_Return: "row \<in> G \<Longrightarrow> resumes a u G (Return row)"
| resumes_Throw: "resumes a u G (Throw e)"
| resumes_GetUser: "(\<And>r. user_is u r \<Longrightarrow> resumes a u G (k r)) \<Longrightarrow> resumes a u G (GetUser k)"
| resumes_Select: "(\<And>r. resumes a u (G \<union> rows_of r) (k r)) \<Longrightarrow>
     resumes a u G (SelectSession (activeSessionQuery a u) c k)"
| resumes_Insert: "(\<And>r. resumes a u (G \<union> rows_of r) (k r)) \<Longrightarrow>
     resumes a u G (InsertSession (newSessionRow a u d) k)"
| resumes_Timeout: "resumes a u G p \<Longrightarrow> resumes a u G (SetTimeout ms p)"

text \<open>The session a run returned, if any, is an active session of \<open>(a, u)\<close> in the store it left.\<close>

definition returns_active :: "string \<Rightarrow> string \<Rightarrow> event list \<times> (thrown + TestSession) \<times> store \<Rightarrow> bool" where
  "returns_active a u res =
     (case fst (snd res) of
        Inl e \<Rightarrow> True
      | Inr row \<Rightarrow> active_for a u row \<and> row \<in> set (sessions (snd (snd res))))"

section \<open>Several calls at once\<close>

text \<open>
  Several tabs of the same student run their calls against one store. The single-threaded
  clients interleave at their \<open>await\<close>s: a step lets one client's pending request be
  carried out by the store, atomically and without failure, and runs that client up to its
  next \<open>await\<close>. A schedule is the order in which the clients take their steps; a step of
  a client that has finished changes nothing.
\<close>

fun step_proc :: "User \<Rightarrow> 'r proc \<Rightarrow> store \<Rightarrow> 'r proc \<times> store" where
  "step_proc usr (Return x) st = (Return x, st)"
| "step_proc usr (Throw e) st = (Throw e, st)"
| "step_proc usr (GetUser k) st = (k (AuthResponse (Some usr) None), st)"
| "step_proc usr (SelectSession fs c k) st = (k (store_select fs c st), st)"
| "step_proc usr (InsertSession row k) st =
     (k (fst (store_insert row st)), snd (store_insert row st))"
| "step_proc usr (UpdateSession upd fs k) st =
     (k (fst (store_update upd fs st)), snd (store_update upd fs st))"
| "step_proc usr (InsertSubmission sub k) st =
     (k (fst (store_insert_submission sub st)), snd (store_insert_submission sub st))"
| "step_proc usr (SetTimeout ms p) st = (p, st\<lparr>clock := clock st + int ms\<rparr>)"
| "step_proc usr (Effect eff p) st = (p, st)"

definition step_client :: "User \<Rightarrow> nat \<Rightarrow> store \<times> 'r proc list \<Rightarrow> store \<times> 'r proc list" where
  "step_client usr i c =
     (if i < length (snd c)
      then (snd (step_proc usr (snd c ! i) (fst c)),
            (snd c)[i := fst (step_proc usr (snd c ! i) (fst c))])
      else c)"


text \<open>The session of \<open>(a, u)\<close> that is not completed, when the store holds one.\<close>

definition the_active :: "string \<Rightarrow> string \<Rightarrow> store \<Rightarrow> TestSession option" where
  "the_active a u st =
     (case select_rows (activeSessionQuery a u) (sessions st) of
        [] \<Rightarrow> None
      | row # rest \<Rightarrow> Some row)"

text \<open>
  \<open>settles a usr n act p\<close>: started in a store whose session of \<open>(a, usr)\<close> that is not
  completed is \<open>act\<close> (or, when there is none yet, any that is created later), the client
  \<open>p\<close> needs at most \<open>n\<close> steps, makes only lookups and inserts for \<open>(a, usr)\<close>, never
  throws, and returns that session.
\<close>

inductive settles :: "string \<Rightarrow> User \<Rightarrow> nat \<Rightarrow> TestSession option \<Rightarrow> TestSession proc \<Rightarrow> bool"
  for a usr where
  settles_Return: "settles a usr n (Some row) (Return row)"
| settles_GetUser: "settles a usr n act (k (AuthResponse (Some usr) None)) \<Longrightarrow>
     settles a usr (Suc n) act (GetUser k)"
| settles_Select: "(\<And>act'. act = None \<or> act' = act \<Longrightarrow> settles a usr n act' (k (Response act' None))) \<Longrightarrow>
     settles a usr (Suc n) act (SelectSession (activeSessionQuery a (user_id usr)) MaybeSingle k)"
| settles_Insert: "(\<And>row. act = None \<or> act = Some row \<Longrightarrow>
        settles a usr n (Some row) (k (Response None (Some unique_violation)))) \<Longrightarrow>
     (\<And>row. act = None \<Longrightarrow> active_for a (user_id usr) row \<Longrightarrow>
        settles a usr n (Some row) (k (Response (Some row) None))) \<Longrightarrow>
     settles a usr (Suc n) act (InsertSession (newSessionRow a (user_id usr) d) k)"
| settles_Timeout: "settles a usr n act p \<Longrightarrow> settles a usr (Suc n) act (SetTimeout ms p)"


section \<open>Countdown driver\<close>

text \<open>
  The state of the \<open>TestTaking\<close> component that the timer and the submit handlers read
  and write (\<open>useState\<close>, lines 24-32). \<open>isTimeExpired_flag\<close> is the state variable
  \<open>isTimeExpired\<close> and \<open>error_state\<close> the state variable \<open>error\<close>. \<open>interval\<close>
  says whether the \<open>setInterval\<close> of the timer effect is installed, and \<open>mounted\<close>
  whether the page is still shown.
\<close>

record page =
  testSession :: "TestSession option"
  isTimeExpired_flag :: bool
  submitting :: bool
  error_state :: "string option"
  timeLeft :: int
  loading :: bool
  interval :: bool
  mounted :: bool

text \<open>
  What the handlers capture from the render: the questions and answers, the route's
  assessment id, the \<open>user\<close> prop and the imported grader. The answers are kept fixed:
  editing them plays no part in what follows.
\<close>

record props =
  questions :: "Question list"
  answers :: "(string \<times> string) list"
  assessmentId :: string
  user :: User
  autoGradeMCQ :: "Question list \<Rightarrow> (string \<times> string) list \<Rightarrow> int"

text \<open>
  What the page did, in order: the tick found the time used up (\<open>Expired\<close>), or the
  body of \<open>submitTest(isAutoSubmit)\<close> was entered; the second flag of
  \<open>SubmitTestCalled\<close> says whether the interval was still installed at that moment.
\<close>

datatype history_event = Expired | SubmitTestCalled bool bool

















definition submit_calls :: "history_event list \<Rightarrow> nat" where
  "submit_calls h = length (filter (\<lambda>e. case e of SubmitTestCalled a t \<Rightarrow> True | Expired \<Rightarrow> False) h)"



definition expiries :: "history_event list \<Rightarrow> nat" where
  "expiries h = length (filter (\<lambda>e. case e of Expired \<Rightarrow> True | SubmitTestCalled a t \<Rightarrow> False) h)"

definition auto_calls :: "history_event list \<Rightarrow> nat" where
  "auto_calls h = length (filter (\<lambda>e. case e of Expired \<Rightarrow> False | SubmitTestCalled a t \<Rightarrow> a) h)"

definition manual_calls :: "history_event list \<Rightarrow> nat" where
  "manual_calls h =
     length (filter (\<lambda>e. case e of Expired \<Rightarrow> False | SubmitTestCalled a t \<Rightarrow> \<not> a) h)"


section \<open>Concrete inputs\<close>

text \<open>The inputs at which the theorems below are instantiated.\<close>

definition student :: User where
  "student = User ''S''"

definition created_session :: TestSession where
  "created_session = \<lparr>id = 7, assessment_id = ''A'', student_id = ''S'', started_at = 0,
     submitted_at = None, duration_minutes = 30, is_completed = False, created_at = 0\<rparr>"

definition permission_denied :: PostgrestError where
  "permission_denied = PostgrestError ''42501'' None ''permission denied for table test_sessions''"

text \<open>
  A service whose first insert is refused with a permission error and whose second insert
  succeeds; no lookup finds a session.
\<close>

definition service_denied_then_created :: service where
  "service_denied_then_created =
     \<lparr>getUser_result = AuthResponse (Some student) None,
      select_result = (\<lambda>k. Response None None),
      insert_result = (\<lambda>k. if k = 0 then Response None (Some permission_denied)
                            else Response (Some created_session) None),
      update_result = (\<lambda>k. Response None None),
      submission_result = (\<lambda>k. Response None None)\<rparr>"

text \<open>A service that answers every insert with a uniqueness violation and finds no session.\<close>

definition service_always_conflict :: service where
  "service_always_conflict =
     \<lparr>getUser_result = AuthResponse (Some student) None,
      select_result = (\<lambda>k. Response None None),
      insert_result = (\<lambda>k. Response None (Some unique_violation)),
      update_result = (\<lambda>k. Response None None),
      submission_result = (\<lambda>k. Response None None)\<rparr>"

text \<open>Stores and environments: a student who has finished one attempt, and one with a running attempt.\<close>

definition completed_session :: TestSession where
  "completed_session = \<lparr>id = 1, assessment_id = ''A'', student_id = ''S'', started_at = 0,
     submitted_at = Some 600000, duration_minutes = 30, is_completed = True, created_at = 0\<rparr>"

definition active_session :: TestSession where
  "active_session = \<lparr>id = 2, assessment_id = ''A'', student_id = ''S'', started_at = 700000,
     submitted_at = None, duration_minutes = 30, is_completed = False, created_at = 700000\<rparr>"

definition store_completed :: store where
  "store_completed = \<lparr>sessions = [completed_session], submissions = [], next_id = 2, clock = 700000\<rparr>"

definition store_active :: store where
  "store_active = \<lparr>sessions = [completed_session, active_session], submissions = [],
     next_id = 3, clock = 800000\<rparr>"

definition signed_in :: env where
  "signed_in = \<lparr>current_user = Some student, fault = (\<lambda>n. None)\<rparr>"

text \<open>An environment in which the second request to a table is refused, and a grader.\<close>

definition second_request_fails :: env where
  "second_request_fails = \<lparr>current_user = Some student,
     fault = (\<lambda>n. if n = 1 then Some permission_denied else None)\<rparr>"

definition no_grading :: "Question list \<Rightarrow> (string \<times> string) list \<Rightarrow> int" where
  "no_grading qs ans = 0"







section \<open>Arithmetic of the two countdown formulas\<close>

lemma floor_ms_div: "\<lfloor>real_of_int a / 1000\<rfloor> = a div 1000"
  using floor_divide_of_int_eq [of a 1000] by simp

lemma ceiling_ms_div: "\<lceil>real_of_int a / 1000\<rceil> = - ((- a) div 1000)"
proof -
  have "\<lceil>real_of_int a / 1000\<rceil> = - \<lfloor>- (real_of_int a / 1000)\<rfloor>"
    by (simp add: ceiling_def)
  also have "- (real_of_int a / 1000) = real_of_int (- a) / 1000"
    by simp
  finally show ?thesis
    by (simp only: floor_ms_div)
qed

lemma ceil_remaining_eq:
  "- ((- max 0 (s + d * 60 * 1000 - n)) div 1000) = max 0 (d * 60 - (n - s) div 1000)"
  for s d n :: int
proof (cases "0 \<le> s + d * 60 * 1000 - n")
  case True
  have "- (s + d * 60 * 1000 - n) = (n - s) + (- (d * 60)) * 1000"
    by simp
  then have "(- (s + d * 60 * 1000 - n)) div 1000 = (n - s) div 1000 - d * 60"
    by (simp only: div_mult_self1 [of 1000 "n - s" "- (d * 60)"])
  moreover have "(n - s) div 1000 \<le> d * 60"
  proof -
    have "n - s \<le> d * 60 * 1000" using True by simp
    then have "(n - s) div 1000 \<le> (d * 60 * 1000) div 1000"
      by (rule zdiv_mono1) simp
    then show ?thesis by simp
  qed
  ultimately show ?thesis using True by simp
next
  case False
  then have "d * 60 * 1000 \<le> n - s" by simp
  then have "(d * 60 * 1000) div 1000 \<le> (n - s) div 1000"
    by (rule zdiv_mono1) simp
  then have "d * 60 \<le> (n - s) div 1000" by simp
  then show ?thesis using False by simp
qed

lemma calculateRemainingTime_div:
  "calculateRemainingTime s now =
     max 0 (duration_minutes s * 60 - (now - started_at s) div 1000)"
  unfolding calculateRemainingTime_def Let_def ceiling_ms_div
  by (rule ceil_remaining_eq)


section \<open>Claims about the time authority\<close>





section \<open>Runs of the retry loop\<close>

lemma exec_finalRetrieval_nothing:
  assumes "select_result orc i = Response None None"
  shows "exec (finalRetrieval a u (Some e)) orc i j =
           ([EvSelect (activeSessionQuery a u) MaybeSingle], Inl e)"
  using assms by (simp add: finalRetrieval_def)

lemma exec_createLoop_exit:
  "3 < attempt \<Longrightarrow> exec (createLoop a u d attempt le) orc i j = exec (finalRetrieval a u le) orc i j"
  by (subst createLoop.simps) simp

lemma inserts_of_simps [simp]:
  "inserts_of [] = 0"
  "inserts_of (EvInsert row # t) = Suc (inserts_of t)"
  "inserts_of (EvGetUser # t) = inserts_of t"
  "inserts_of (EvSelect fs c # t) = inserts_of t"
  "inserts_of (EvTimeout ms # t) = inserts_of t"
  "inserts_of (EvUpdate upd fs # t) = inserts_of t"
  "inserts_of (EvInsertSubmission sub # t) = inserts_of t"
  "inserts_of (EvEffect eff # t) = inserts_of t"
  by (simp_all add: inserts_of_def)

lemma waits_of_simps [simp]:
  "waits_of [] = []"
  "waits_of (EvInsert row # t) = waits_of t"
  "waits_of (EvGetUser # t) = waits_of t"
  "waits_of (EvSelect fs c # t) = waits_of t"
  "waits_of (EvTimeout ms # t) = ms # waits_of t"
  "waits_of (EvUpdate upd fs # t) = waits_of t"
  "waits_of (EvInsertSubmission sub # t) = waits_of t"
  "waits_of (EvEffect eff # t) = waits_of t"
  by (simp_all add: waits_of_def)

lemma exec_finalRetrieval_bounds:
  "inserts_of (fst (exec (finalRetrieval a u le) orc i j)) = 0 \<and>
   sum_list (waits_of (fst (exec (finalRetrieval a u le) orc i j))) = 0 \<and>
   length (fst (exec (finalRetrieval a u le) orc i j)) = 1"
  by (simp add: finalRetrieval_def  split: response.splits option.splits)

lemma exec_createLoop_step_bounds:
  assumes "attempt \<le> 3" and nxt: "nxt = attempt + 1"
    and "\<And>le i j. inserts_of (fst (exec (createLoop a u d nxt le) orc i j)) \<le> n"
  shows "inserts_of (fst (exec (createLoop a u d attempt le) orc i j)) \<le> Suc n"
proof -
  have ih: "inserts_of (fst (exec (createLoop a u d nxt le') orc i' j')) \<le> m"
    if "n \<le> m" for le' i' j' m
    using assms(3) [of le' i' j'] that by simp
  show ?thesis
    apply (subst createLoop.simps)
    apply (simp only: nxt [symmetric])
    using assms(1)
    apply (auto simp add: Let_def split_def intro!: ih split: response.splits option.splits)
    done
qed

lemma exec_createLoop_step_length:
  assumes "attempt \<le> 3" and nxt: "nxt = attempt + 1"
    and "\<And>le i j. length (fst (exec (createLoop a u d nxt le) orc i j)) \<le> n"
  shows "length (fst (exec (createLoop a u d attempt le) orc i j)) \<le> n + (if attempt < 3 then 4 else 3)"
proof -
  have ih: "length (fst (exec (createLoop a u d nxt le') orc i' j')) \<le> m"
    if "n \<le> m" for le' i' j' m
    using assms(3) [of le' i' j'] that by simp
  show ?thesis
    apply (subst createLoop.simps)
    apply (simp only: nxt [symmetric])
    using assms(1)
    apply (auto simp add: Let_def split_def intro!: ih split: response.splits option.splits)
    done
qed

lemma exec_createLoop_step_waits:
  assumes "attempt \<le> 3" and nxt: "nxt = attempt + 1"
    and "\<And>le i j. sum_list (waits_of (fst (exec (createLoop a u d nxt le) orc i j))) \<le> n"
  shows "sum_list (waits_of (fst (exec (createLoop a u d attempt le) orc i j))) \<le> n + (if attempt < 3 then 2 else 1) * backoffMs attempt"
proof -
  have ih: "sum_list (waits_of (fst (exec (createLoop a u d nxt le') orc i' j'))) \<le> m"
    if "n \<le> m" for le' i' j' m
    using assms(3) [of le' i' j'] that by simp
  show ?thesis
    apply (subst createLoop.simps)
    apply (simp only: nxt [symmetric])
    using assms(1)
    apply (auto simp add: Let_def split_def intro!: ih split: response.splits option.splits)
    done
qed

lemma createLoop_bounds_4:
  "inserts_of (fst (exec (createLoop a u d 4 le) orc i j)) \<le> 0"
  "length (fst (exec (createLoop a u d 4 le) orc i j)) \<le> 1"
  "sum_list (waits_of (fst (exec (createLoop a u d 4 le) orc i j))) \<le> 0"
  by (simp_all add: exec_createLoop_exit exec_finalRetrieval_bounds)

lemma createLoop_bounds_3:
  "inserts_of (fst (exec (createLoop a u d 3 le) orc i j)) \<le> 1"
  "length (fst (exec (createLoop a u d 3 le) orc i j)) \<le> 4"
  "sum_list (waits_of (fst (exec (createLoop a u d 3 le) orc i j))) \<le> 800"
proof -
  have "inserts_of (fst (exec (createLoop a u d 3 le) orc i j)) \<le> Suc 0"
    by (rule exec_createLoop_step_bounds [where nxt = 4]) (simp, simp, rule createLoop_bounds_4)
  then show "inserts_of (fst (exec (createLoop a u d 3 le) orc i j)) \<le> 1"
    by simp
  have "length (fst (exec (createLoop a u d 3 le) orc i j)) \<le> 1 + (if (3::nat) < 3 then 4 else 3)"
    by (rule exec_createLoop_step_length [where nxt = 4]) (simp, simp, rule createLoop_bounds_4)
  then show "length (fst (exec (createLoop a u d 3 le) orc i j)) \<le> 4"
    by simp
  have "sum_list (waits_of (fst (exec (createLoop a u d 3 le) orc i j)))
          \<le> 0 + (if (3::nat) < 3 then 2 else 1) * backoffMs 3"
    by (rule exec_createLoop_step_waits [where nxt = 4]) (simp, simp, rule createLoop_bounds_4)
  then show "sum_list (waits_of (fst (exec (createLoop a u d 3 le) orc i j))) \<le> 800"
    by (simp add: backoffMs_def)
qed

lemma createLoop_bounds_2:
  "inserts_of (fst (exec (createLoop a u d 2 le) orc i j)) \<le> 2"
  "length (fst (exec (createLoop a u d 2 le) orc i j)) \<le> 8"
  "sum_list (waits_of (fst (exec (createLoop a u d 2 le) orc i j))) \<le> 1600"
proof -
  have "inserts_of (fst (exec (createLoop a u d 2 le) orc i j)) \<le> Suc 1"
    by (rule exec_createLoop_step_bounds [where nxt = 3]) (simp, simp, rule createLoop_bounds_3)
  then show "inserts_of (fst (exec (createLoop a u d 2 le) orc i j)) \<le> 2"
    by simp
  have "length (fst (exec (createLoop a u d 2 le) orc i j)) \<le> 4 + (if (2::nat) < 3 then 4 else 3)"
    by (rule exec_createLoop_step_length [where nxt = 3]) (simp, simp, rule createLoop_bounds_3)
  then show "length (fst (exec (createLoop a u d 2 le) orc i j)) \<le> 8"
    by simp
  have "sum_list (waits_of (fst (exec (createLoop a u d 2 le) orc i j)))
          \<le> 800 + (if (2::nat) < 3 then 2 else 1) * backoffMs 2"
    by (rule exec_createLoop_step_waits [where nxt = 3]) (simp, simp, rule createLoop_bounds_3)
  then show "sum_list (waits_of (fst (exec (createLoop a u d 2 le) orc i j))) \<le> 1600"
    by (simp add: backoffMs_def)
qed

lemma createLoop_bounds_1:
  "inserts_of (fst (exec (createLoop a u d 1 le) orc i j)) \<le> 3"
  "length (fst (exec (createLoop a u d 1 le) orc i j)) \<le> 12"
  "sum_list (waits_of (fst (exec (createLoop a u d 1 le) orc i j))) \<le> 2000"
proof -
  have "inserts_of (fst (exec (createLoop a u d 1 le) orc i j)) \<le> Suc 2"
    by (rule exec_createLoop_step_bounds [where nxt = 2]) (simp, simp, rule createLoop_bounds_2)
  then show "inserts_of (fst (exec (createLoop a u d 1 le) orc i j)) \<le> 3"
    by simp
  have "length (fst (exec (createLoop a u d 1 le) orc i j)) \<le> 8 + (if (1::nat) < 3 then 4 else 3)"
    by (rule exec_createLoop_step_length [where nxt = 2]) (simp, simp, rule createLoop_bounds_2)
  then show "length (fst (exec (createLoop a u d 1 le) orc i j)) \<le> 12"
    by simp
  have "sum_list (waits_of (fst (exec (createLoop a u d 1 le) orc i j)))
          \<le> 1600 + (if (1::nat) < 3 then 2 else 1) * backoffMs 1"
    by (rule exec_createLoop_step_waits [where nxt = 2]) (simp, simp, rule createLoop_bounds_2)
  then show "sum_list (waits_of (fst (exec (createLoop a u d 1 le) orc i j))) \<le> 2000"
    by (simp add: backoffMs_def)
qed

lemma getOrCreateTestSession_bounds:
  "inserts_of (fst (run (getOrCreateTestSession a d) orc)) \<le> 3 \<and>
   length (fst (run (getOrCreateTestSession a d) orc)) \<le> 14 \<and>
   sum_list (waits_of (fst (run (getOrCreateTestSession a d) orc))) \<le> 2000"
  using createLoop_bounds_1 [of a _ d None orc 1 0]
  by (auto simp add: run_def getOrCreateTestSession_def Let_def split_def
      split: auth_response.splits option.splits response.splits)

lemma exec_createLoop_failed:
  assumes "attempt \<le> 3" and "nxt = attempt + 1" and "j' = Suc j"
    and "insert_result orc j = Response dat (Some e)"
    and "select_result orc i = Response None None"
  shows "exec (createLoop a u d attempt le) orc i j =
           (EvInsert (newSessionRow a u d) #
              (if isConflict e
               then [EvTimeout (backoffMs attempt), EvSelect (activeSessionQuery a u) MaybeSingle]
               else if attempt < 3 then [EvTimeout (backoffMs attempt)] else []) @
              fst (exec (createLoop a u d nxt (Some (Postgrest e))) orc
                     (if isConflict e then Suc i else i) j'),
            snd (exec (createLoop a u d nxt (Some (Postgrest e))) orc
                     (if isConflict e then Suc i else i) j'))"
  using assms by (subst createLoop.simps) (simp add: Let_def split_def)


lemma createLoop_begins_with_insert:
  assumes "attempt \<le> 3"
  shows "take 1 (fst (exec (createLoop a u d attempt le) orc i j)) = [EvInsert (newSessionRow a u d)]"
  using assms by (subst createLoop.simps) (simp add: Let_def split_def)

section \<open>Claims about the retry loop\<close>

text \<open>
  Claim C4 (what the code does). A \<open>createSession\<close> error that is not a conflict does
  not leave \<open>getOrCreateTestSession\<close>: the \<open>throw createError\<close> lands in the
  \<open>catch\<close> of the loop body, which waits 200 ms and attempts the creation again. When the
  second attempt succeeds the caller gets a session and never sees the error.
\<close>

theorem nonconflict_create_error_is_retried:
  assumes "getUser_result orc = AuthResponse (Some u) ae"
    and "select_result orc 0 = Response None None"
    and "insert_result orc 0 = Response dat (Some e)"
    and "\<not> isConflict e"
  shows "take 5 (fst (run (getOrCreateTestSession a d) orc)) =
           [EvGetUser, EvSelect (activeSessionQuery a (user_id u)) MaybeSingle,
            EvInsert (newSessionRow a (user_id u) d), EvTimeout 200,
            EvInsert (newSessionRow a (user_id u) d)] \<and>
         (insert_result orc 1 = Response (Some s) None \<longrightarrow>
            snd (run (getOrCreateTestSession a d) orc) = Inr s)"
proof -
  have second: "take (Suc 0) (fst (exec (createLoop a (user_id u) d 2 le) orc i j)) =
      [EvInsert (newSessionRow a (user_id u) d)]" for le i j
    using createLoop_begins_with_insert [of 2 a "user_id u" d le orc i j] by simp
  have created: "snd (exec (createLoop a (user_id u) d 2 le) orc i (Suc 0)) = Inr s"
    if "insert_result orc 1 = Response (Some s) None" for le i
    using that by (subst createLoop.simps) (simp add: Let_def split_def)
  have first: "exec (createLoop a (user_id u) d 1 None) orc i 0 =
      (EvInsert (newSessionRow a (user_id u) d) # EvTimeout 200 #
         fst (exec (createLoop a (user_id u) d 2 (Some (Postgrest e))) orc i (Suc 0)),
       snd (exec (createLoop a (user_id u) d 2 (Some (Postgrest e))) orc i (Suc 0)))" for i
    using assms(3,4)
    by (subst createLoop.simps) (simp add: Let_def split_def backoffMs_def del: One_nat_def)
  show ?thesis
    using created
    by (simp add: run_def getOrCreateTestSession_def assms(1,2) first second Let_def
        del: One_nat_def)
qed

theorem nonconflict_create_error_is_retried_witness:
  "\<not> isConflict permission_denied \<and>
   take 5 (fst (run (getOrCreateTestSession ''A'' 30) service_denied_then_created)) =
     [EvGetUser, EvSelect (activeSessionQuery ''A'' ''S'') MaybeSingle,
      EvInsert (newSessionRow ''A'' ''S'' 30), EvTimeout 200,
      EvInsert (newSessionRow ''A'' ''S'' 30)] \<and>
   snd (run (getOrCreateTestSession ''A'' 30) service_denied_then_created) = Inr created_session"
  using nonconflict_create_error_is_retried
    [of service_denied_then_created student None None permission_denied "''A''" 30 created_session]
  by (simp add: service_denied_then_created_def student_def permission_denied_def isConflict_def)

text \<open>
  Claim C5. Whatever the service answers, \<open>getOrCreateTestSession\<close> makes at most 3
  creation attempts and at most 14 calls in all, and waits at most 2000 ms: it always
  ends. When every creation attempt fails with a store error and no lookup finds a
  session, it inserts exactly three times, waits \<open>200 * 2^(attempt - 1)\<close> ms after a
  conflict (200, 400, 800) before it looks the session up again, ends with one more
  lookup, and fails with the error of the last attempt.
\<close>

theorem bounded_retries_then_failure:
  "inserts_of (fst (run (getOrCreateTestSession a d) orc)) \<le> 3 \<and>
   length (fst (run (getOrCreateTestSession a d) orc)) \<le> 14 \<and>
   sum_list (waits_of (fst (run (getOrCreateTestSession a d) orc))) \<le> 2000 \<and>
   (getUser_result orc = AuthResponse (Some u) ae \<and>
    (\<forall>k. select_result orc k = Response None None) \<and>
    (\<forall>k. insert_result orc k = Response (dat k) (Some (e k))) \<longrightarrow>
    run (getOrCreateTestSession a d) orc =
     ([EvGetUser, EvSelect (activeSessionQuery a (user_id u)) MaybeSingle,
       EvInsert (newSessionRow a (user_id u) d)] @
      (if isConflict (e 0)
       then [EvTimeout 200, EvSelect (activeSessionQuery a (user_id u)) MaybeSingle]
       else [EvTimeout 200]) @
      [EvInsert (newSessionRow a (user_id u) d)] @
      (if isConflict (e 1)
       then [EvTimeout 400, EvSelect (activeSessionQuery a (user_id u)) MaybeSingle]
       else [EvTimeout 400]) @
      [EvInsert (newSessionRow a (user_id u) d)] @
      (if isConflict (e 2)
       then [EvTimeout 800, EvSelect (activeSessionQuery a (user_id u)) MaybeSingle]
       else []) @
      [EvSelect (activeSessionQuery a (user_id u)) MaybeSingle],
      Inl (Postgrest (e 2))))"
proof -
  have bounds: "inserts_of (fst (run (getOrCreateTestSession a d) orc)) \<le> 3 \<and>
      length (fst (run (getOrCreateTestSession a d) orc)) \<le> 14 \<and>
      sum_list (waits_of (fst (run (getOrCreateTestSession a d) orc))) \<le> 2000"
    using createLoop_bounds_1 [of a _ d None orc 1 0]
    by (auto simp add: run_def getOrCreateTestSession_def Let_def split_def
        split: auth_response.splits option.splits response.splits)
  have failure: "run (getOrCreateTestSession a d) orc =
     ([EvGetUser, EvSelect (activeSessionQuery a (user_id u)) MaybeSingle,
       EvInsert (newSessionRow a (user_id u) d)] @
      (if isConflict (e 0)
       then [EvTimeout 200, EvSelect (activeSessionQuery a (user_id u)) MaybeSingle]
       else [EvTimeout 200]) @
      [EvInsert (newSessionRow a (user_id u) d)] @
      (if isConflict (e 1)
       then [EvTimeout 400, EvSelect (activeSessionQuery a (user_id u)) MaybeSingle]
       else [EvTimeout 400]) @
      [EvInsert (newSessionRow a (user_id u) d)] @
      (if isConflict (e 2)
       then [EvTimeout 800, EvSelect (activeSessionQuery a (user_id u)) MaybeSingle]
       else []) @
      [EvSelect (activeSessionQuery a (user_id u)) MaybeSingle],
      Inl (Postgrest (e 2)))"
    if user: "getUser_result orc = AuthResponse (Some u) ae"
      and lookups: "\<And>k. select_result orc k = Response None None"
      and failing: "\<And>k. insert_result orc k = Response (dat k) (Some (e k))"
  proof -
  let ?q = "EvSelect (activeSessionQuery a (user_id u)) MaybeSingle"
  let ?ins = "EvInsert (newSessionRow a (user_id u) d)"
  let ?t3 = "[?ins] @ (if isConflict (e 2) then [EvTimeout 800, ?q] else []) @ [?q]"
  let ?t2 = "[?ins] @ (if isConflict (e 1) then [EvTimeout 400, ?q] else [EvTimeout 400]) @ ?t3"
  let ?t1 = "[?ins] @ (if isConflict (e 0) then [EvTimeout 200, ?q] else [EvTimeout 200]) @ ?t2"
  have three: "exec (createLoop a (user_id u) d 3 le) orc i 2 = (?t3, Inl (Postgrest (e 2)))"
    for le i
    by (subst exec_createLoop_failed [where nxt = 4 and j' = 3, OF _ _ _ failing lookups])
      (simp_all add: lookups exec_createLoop_exit exec_finalRetrieval_nothing backoffMs_def)
  have two: "exec (createLoop a (user_id u) d 2 le) orc i (Suc 0) = (?t2, Inl (Postgrest (e 2)))"
    for le i
    by (subst exec_createLoop_failed [where nxt = 3 and j' = 2, OF _ _ _ failing lookups])
      (simp_all add: three backoffMs_def)
  have one: "exec (createLoop a (user_id u) d 1 le) orc i 0 = (?t1, Inl (Postgrest (e 2)))"
    for le i
    by (subst exec_createLoop_failed [where nxt = 2 and j' = "Suc 0", OF _ _ _ failing lookups])
      (simp_all add: two backoffMs_def)
  show ?thesis
    by (simp add: run_def getOrCreateTestSession_def user lookups one Let_def del: One_nat_def)
qed
  show ?thesis
    using bounds failure by blast
qed

theorem bounded_retries_then_failure_witness:
  "isConflict unique_violation \<and>
   run (getOrCreateTestSession ''A'' 30) service_always_conflict =
     ([EvGetUser, EvSelect (activeSessionQuery ''A'' ''S'') MaybeSingle,
       EvInsert (newSessionRow ''A'' ''S'' 30), EvTimeout 200,
       EvSelect (activeSessionQuery ''A'' ''S'') MaybeSingle,
       EvInsert (newSessionRow ''A'' ''S'' 30), EvTimeout 400,
       EvSelect (activeSessionQuery ''A'' ''S'') MaybeSingle,
       EvInsert (newSessionRow ''A'' ''S'' 30), EvTimeout 800,
       EvSelect (activeSessionQuery ''A'' ''S'') MaybeSingle,
       EvSelect (activeSessionQuery ''A'' ''S'') MaybeSingle],
      Inl (Postgrest unique_violation))"
  using bounded_retries_then_failure
    [of "''A''" 30 service_always_conflict student None "\<lambda>k. None" "\<lambda>k. unique_violation"]
  by (simp add: service_always_conflict_def student_def unique_violation_def isConflict_def)

text \<open>
  Claim C9 as stated fails: on a uniqueness violation the version without retries does
  not surface the store's error; what it throws is a new \<open>Error\<close> with a fixed message.
\<close>

theorem retryless_conflict_not_surfaced:
  "snd (run (getOrCreateTestSession_components ''A'' 30 None) service_always_conflict)
     \<noteq> Inl (Postgrest unique_violation)"
  by (simp add: run_def getOrCreateTestSession_components_def service_always_conflict_def
      student_def Let_def)

text \<open>
  Claim C9, amended. The version without retries detects no conflict, never waits and
  never looks the session up again: when the lookup finds no session and the store
  refuses the insert (with a uniqueness violation or any other error), it ends after that
  single insert by throwing \<open>Error('Failed to create test session')\<close>; the store's
  error is not part of what it throws.
\<close>

theorem retryless_fails_immediately:
  assumes "getUser_result orc = AuthResponse (Some u) None"
    and "select_result orc 0 = Response None fe"
    and "insert_result orc 0 = Response dat (Some ce)"
  shows "run (getOrCreateTestSession_components a d None) orc =
           ([EvGetUser, EvSelect (activeSessionQuery a (user_id u)) Single,
             EvInsert (newSessionRow a (user_id u) d)],
            Inl (JsError ''Failed to create test session''))"
  using assms
  by (simp add: run_def getOrCreateTestSession_components_def Let_def split: option.splits)

theorem retryless_fails_immediately_witness:
  "run (getOrCreateTestSession_components ''A'' 30 None) service_always_conflict =
     ([EvGetUser, EvSelect (activeSessionQuery ''A'' ''S'') Single,
       EvInsert (newSessionRow ''A'' ''S'' 30)],
      Inl (JsError ''Failed to create test session''))"
  using retryless_fails_immediately
    [of service_always_conflict student None None unique_violation "''A''" 30]
  by (simp add: service_always_conflict_def student_def)


section \<open>Runs against the store\<close>

lemma returns_active_simps [simp]:
  "returns_active a u (t, Inr row, st) \<longleftrightarrow> active_for a u row \<and> row \<in> set (sessions st)"
  "returns_active a u (t, Inl e, st)"
  "returns_active a u (ev # fst res, snd res) = returns_active a u res"
  by (simp_all add: returns_active_def split: sum.splits)

lemma select_rows_active:
  "row \<in> set (select_rows (activeSessionQuery a u) rows) \<longleftrightarrow> row \<in> set rows \<and> active_for a u row"
  by (auto simp add: select_rows_def activeSessionQuery_def column_def active_for_def)

lemma store_select_active:
  assumes "row \<in> rows_of (store_select (activeSessionQuery a u) c st)"
  shows "active_for a u row \<and> row \<in> set (sessions st)"
proof -
  from assms have "select_rows (activeSessionQuery a u) (sessions st) = [row]"
    by (auto simp add: store_select_def split: list.splits cardinality.splits)
  then have "row \<in> set (select_rows (activeSessionQuery a u) (sessions st))"
    by simp
  then show ?thesis
    by (simp add: select_rows_active)
qed

lemma store_insert_active:
  assumes "row \<in> rows_of (fst (store_insert (newSessionRow a u d) st))"
  shows "active_for a u row \<and> row \<in> set (sessions (snd (store_insert (newSessionRow a u d) st)))"
  using assms
  by (auto simp add: store_insert_def newSessionRow_def active_for_def Let_def split: if_splits)

lemma store_insert_keeps:
  "row \<in> set (sessions st) \<Longrightarrow> row \<in> set (sessions (snd (store_insert new st)))"
  by (simp add: store_insert_def Let_def)

lemma resumes_sound:
  assumes "resumes a u G p"
    and "\<And>row. row \<in> G \<Longrightarrow> active_for a u row \<and> row \<in> set (sessions st)"
    and "\<And>usr. current_user ev = Some usr \<Longrightarrow> user_id usr = u"
  shows "returns_active a u (run_store p ev n st)"
  using assms
proof (induction arbitrary: n st rule: resumes.induct)
  case (resumes_Return row G)
  then show ?case by simp
next
  case (resumes_Throw G e)
  then show ?case by simp
next
  case (resumes_GetUser G k)
  then show ?case
    by (cases "current_user ev") (simp_all add: split_def Let_def)
next
  case (resumes_Select G k c)
  show ?case
  proof (cases "fault ev n")
    case None
    have "returns_active a u
        (run_store (k (store_select (activeSessionQuery a u) c st)) ev (Suc n) st)"
      using resumes_Select.prems store_select_active [of _ a u c st]
      by (intro resumes_Select.IH) auto
    then show ?thesis using None by (simp add: split_def Let_def)
  next
    case (Some e)
    have "returns_active a u (run_store (k (Response None (Some e))) ev (Suc n) st)"
      using resumes_Select.prems by (intro resumes_Select.IH) auto
    then show ?thesis using Some by (simp add: split_def Let_def)
  qed
next
  case (resumes_Insert G k d)
  show ?case
  proof (cases "fault ev n")
    case None
    have "returns_active a u
        (run_store (k (fst (store_insert (newSessionRow a u d) st))) ev (Suc n)
           (snd (store_insert (newSessionRow a u d) st)))"
      using resumes_Insert.prems store_insert_active [of _ a u d st]
        store_insert_keeps [of _ st "newSessionRow a u d"]
      by (intro resumes_Insert.IH) auto
    then show ?thesis using None by (simp add: split_def Let_def)
  next
    case (Some e)
    have "returns_active a u (run_store (k (Response None (Some e))) ev (Suc n) st)"
      using resumes_Insert.prems by (intro resumes_Insert.IH) auto
    then show ?thesis using Some by (simp add: split_def Let_def)
  qed
next
  case (resumes_Timeout G p ms)
  have "returns_active a u (run_store p ev n (st\<lparr>clock := clock st + int ms\<rparr>))"
    using resumes_Timeout.prems by (intro resumes_Timeout.IH) auto
  then show ?case by (simp add: split_def Let_def)
qed

lemma resumes_mono: "resumes a u G p \<Longrightarrow> G \<subseteq> H \<Longrightarrow> resumes a u H p"
proof (induction arbitrary: H rule: resumes.induct)
  case (resumes_Select G k c)
  show ?case
    by (rule resumes.resumes_Select) (use resumes_Select in blast)
next
  case (resumes_Insert G k d)
  show ?case
    by (rule resumes.resumes_Insert) (use resumes_Insert in blast)
qed (auto intro: resumes.intros)

lemma resumes_finalRetrieval: "resumes a u G (finalRetrieval a u le)"
  unfolding finalRetrieval_def
  by (rule resumes_Select) (auto intro: resumes.intros split: response.splits option.splits)

lemma resumes_createLoop_step:
  assumes "attempt \<le> 3" and nxt: "nxt = attempt + 1"
    and ih: "\<And>le G. resumes a u G (createLoop a u d nxt le)"
  shows "resumes a u G (createLoop a u d attempt le)"
  apply (subst createLoop.simps)
  apply (simp only: nxt [symmetric])
  using assms(1)
  apply (auto simp add: Let_def intro!: resumes.intros ih split: response.splits option.splits)
  done

lemma resumes_createLoop_4: "resumes a u G (createLoop a u d 4 le)"
  by (subst createLoop.simps) (simp add: resumes_finalRetrieval)

lemma resumes_createLoop_3: "resumes a u G (createLoop a u d 3 le)"
  by (rule resumes_createLoop_step [where nxt = 4]) (simp_all add: resumes_createLoop_4)

lemma resumes_createLoop_2: "resumes a u G (createLoop a u d 2 le)"
  by (rule resumes_createLoop_step [where nxt = 3]) (simp_all add: resumes_createLoop_3)

lemma resumes_createLoop_1: "resumes a u G (createLoop a u d 1 le)"
  by (rule resumes_createLoop_step [where nxt = 2]) (simp_all add: resumes_createLoop_2)

lemma resumes_getOrCreateTestSession: "resumes a u {} (getOrCreateTestSession a d)"
  unfolding getOrCreateTestSession_def
  apply (rule resumes_GetUser)
  apply (auto simp add: Let_def intro!: resumes.intros resumes_createLoop_1
      split: auth_response.splits response.splits option.splits simp del: One_nat_def)
  done

lemma run_store_existing:
  assumes "current_user ev = Some usr" and "fault ev n = None"
    and "select_rows (activeSessionQuery a (user_id usr)) (sessions st) = [row]"
  shows "run_store (getOrCreateTestSession a d) ev n st =
           ([EvGetUser, EvSelect (activeSessionQuery a (user_id usr)) MaybeSingle], Inr row, st)"
  using assms by (simp add: getOrCreateTestSession_def store_select_def Let_def)

text \<open>
  Claim C6. When the store holds a session that passes the lookup's filters (assessment,
  student, not completed), \<open>getOrCreateTestSession\<close> returns that session after the
  lookup alone: it makes no insert and leaves the store as it was. Called twice in a row
  it returns the same session both times and the store still holds the same rows.
\<close>

theorem existing_session_resumed:
  assumes "current_user ev = Some usr" and "fault ev n = None" and "fault ev m = None"
    and "select_rows (activeSessionQuery a (user_id usr)) (sessions st) = [row]"
  shows "run_store (getOrCreateTestSession a d) ev n st =
           ([EvGetUser, EvSelect (activeSessionQuery a (user_id usr)) MaybeSingle], Inr row, st) \<and>
         run_store (getOrCreateTestSession a d) ev m
             (snd (snd (run_store (getOrCreateTestSession a d) ev n st))) =
           ([EvGetUser, EvSelect (activeSessionQuery a (user_id usr)) MaybeSingle], Inr row, st)"
  using assms by (simp add: run_store_existing)

theorem existing_session_resumed_witness:
  "select_rows (activeSessionQuery ''A'' ''S'') (sessions store_active) = [active_session] \<and>
   run_store (getOrCreateTestSession ''A'' 30) signed_in 0 store_active =
     ([EvGetUser, EvSelect (activeSessionQuery ''A'' ''S'') MaybeSingle], Inr active_session,
      store_active)"
  using existing_session_resumed [of signed_in student 0 0 "''A''" store_active active_session 30]
  by (simp add: signed_in_def student_def store_active_def select_rows_def activeSessionQuery_def
      column_def completed_session_def active_session_def)

text \<open>
  Claim C7. The lookup of \<open>getOrCreateTestSession\<close> never matches a completed session,
  and whatever the store holds and however its requests fail, a session that the function
  returns is a session of this assessment and student that is not completed; a completed
  session is never what it returns.
\<close>

theorem completed_session_never_resumed:
  assumes "current_user ev = Some usr"
  shows "(store_select (activeSessionQuery a (user_id usr)) c st = Response (Some row) err \<longrightarrow>
            \<not> is_completed row) \<and>
         (fst (snd (run_store (getOrCreateTestSession a d) ev n st)) = Inr row \<longrightarrow>
            active_for a (user_id usr) row \<and> \<not> is_completed row \<and>
            row \<in> set (sessions (snd (snd (run_store (getOrCreateTestSession a d) ev n st))))) \<and>
         (is_completed done_row \<longrightarrow>
            fst (snd (run_store (getOrCreateTestSession a d) ev n st)) \<noteq> Inr done_row)"
proof -
  have lookup: "\<not> is_completed row"
    if "store_select (activeSessionQuery a (user_id usr)) c st = Response (Some row) err"
    using store_select_active [of row a "user_id usr" c st] that
    by (simp add: active_for_def)
  have "returns_active a (user_id usr) (run_store (getOrCreateTestSession a d) ev n st)"
    by (rule resumes_sound [OF resumes_getOrCreateTestSession]) (simp_all add: assms)
  then have result: "active_for a (user_id usr) r \<and>
      r \<in> set (sessions (snd (snd (run_store (getOrCreateTestSession a d) ev n st))))"
    if "fst (snd (run_store (getOrCreateTestSession a d) ev n st)) = Inr r" for r
    using that by (simp add: returns_active_def)
  show ?thesis
    using lookup result by (auto simp add: active_for_def)
qed

theorem completed_session_never_resumed_witness:
  "is_completed completed_session \<and> completed_session \<in> set (sessions store_completed) \<and>
   store_select (activeSessionQuery ''A'' ''S'') MaybeSingle store_completed = Response None None \<and>
   fst (snd (run_store (getOrCreateTestSession ''A'' 30) signed_in 0 store_completed))
     \<noteq> Inr completed_session"
  using completed_session_never_resumed
    [of signed_in student "''A''" MaybeSingle store_completed completed_session None 30 0
        completed_session]
  by (simp add: signed_in_def student_def store_completed_def completed_session_def
      store_select_def select_rows_def activeSessionQuery_def column_def)



section \<open>Claims about the submission finalizer\<close>

lemma fst_store_update [simp]: "fst (store_update upd fs st) = Response None None"
  by (simp add: store_update_def)

lemma store_update_completes:
  "sessions (snd (store_update \<lparr>upd_is_completed = True\<rparr> [Eq ''id'' (IdVal i)] st)) =
     map (\<lambda>row. if id row = i
                then row\<lparr>submitted_at := Some (clock st), is_completed := True\<rparr>
                else row)
       (sessions st) \<and>
   submissions (snd (store_update \<lparr>upd_is_completed = True\<rparr> [Eq ''id'' (IdVal i)] st)) =
     submissions st"
  by (simp add: store_update_def column_def)

text \<open>
  Claim C8 as stated fails: when the completion write succeeds and the insert of the
  submission is refused, \<open>submitTest\<close> does not raise the error to its caller; the call
  returns normally.
\<close>

theorem submitTest_does_not_raise:
  "fst (snd (run_store (submitTest (Some active_session) [] [] ''A'' student no_grading False)
       second_request_fails 0 store_active)) \<noteq> Inl (Postgrest permission_denied) \<and>
   fst (snd (run_store (submitTest (Some active_session) [] [] ''A'' student no_grading False)
       second_request_fails 0 store_active)) = Inr ()"
  by (simp add: submitTest_def submitTest_try_def submitTest_catch_def completeTestSession_def
      second_request_fails_def split_def)

text \<open>
  Claim C8, amended. \<open>submitTest\<close> marks the session completed (\<open>is_completed\<close> true,
  \<open>submitted_at\<close> set) before it inserts the submission. If the completion write
  succeeds and the insert of the submission fails, the body of its \<open>try\<close> throws the
  store's error, and its own \<open>catch\<close> takes it: \<open>submitTest\<close> puts
  \<open>Error submitting test: <message>\<close> into the page's error state, shows an alert,
  clears \<open>submitting\<close> and returns normally. The session stays completed and no
  submission row exists for it: the failure is shown, not swallowed, and the completion is
  not rolled back. When both writes succeed the submission row is added after the
  completion.
\<close>

theorem submitTest_reports_failed_submission:
  assumes "fault ev n = None"
  shows "(fault ev (Suc n) = Some e \<longrightarrow>
            run_store (submitTest_try session qs ans aid usr grade isAuto) ev n st =
              ([EvUpdate \<lparr>upd_is_completed = True\<rparr> [Eq ''id'' (IdVal (id session))],
                EvInsertSubmission (submissionRow session qs ans aid usr grade isAuto)],
               Inl (Postgrest e),
               snd (store_update \<lparr>upd_is_completed = True\<rparr> [Eq ''id'' (IdVal (id session))] st)) \<and>
            run_store (submitTest (Some session) qs ans aid usr grade isAuto) ev n st =
              ([EvEffect (SetSubmitting True),
                EvUpdate \<lparr>upd_is_completed = True\<rparr> [Eq ''id'' (IdVal (id session))],
                EvInsertSubmission (submissionRow session qs ans aid usr grade isAuto),
                EvEffect (SetError (''Error submitting test: '' @ messageOrUnknown (Postgrest e))),
                EvEffect (Alert ''Error submitting test. Please try again.''),
                EvEffect (SetSubmitting False)],
               Inr (),
               snd (store_update \<lparr>upd_is_completed = True\<rparr> [Eq ''id'' (IdVal (id session))] st))) \<and>
         (fault ev (Suc n) = None \<longrightarrow>
            run_store (submitTest (Some session) qs ans aid usr grade isAuto) ev n st =
              ([EvEffect (SetSubmitting True),
                EvUpdate \<lparr>upd_is_completed = True\<rparr> [Eq ''id'' (IdVal (id session))],
                EvInsertSubmission (submissionRow session qs ans aid usr grade isAuto),
                EvEffect (Alert (if isAuto then ''Test auto-submitted due to time expiry!''
                                 else ''Test submitted successfully!'')),
                EvEffect (NavigateResults (next_id st)),
                EvEffect (SetSubmitting False)],
               Inr (),
               snd (store_insert_submission (submissionRow session qs ans aid usr grade isAuto)
                 (snd (store_update \<lparr>upd_is_completed = True\<rparr>
                    [Eq ''id'' (IdVal (id session))] st))))) \<and>
         sessions (snd (store_update \<lparr>upd_is_completed = True\<rparr> [Eq ''id'' (IdVal (id session))] st)) =
           map (\<lambda>row. if id row = id session
                      then row\<lparr>submitted_at := Some (clock st), is_completed := True\<rparr>
                      else row)
             (sessions st) \<and>
         submissions (snd (store_update \<lparr>upd_is_completed = True\<rparr> [Eq ''id'' (IdVal (id session))] st)) =
           submissions st"
proof -
  have next_id: "next_id (snd (store_update upd fs st)) = next_id st" for upd fs
    by (simp add: store_update_def)
  have failed: "run_store (submitTest_try session qs ans aid usr grade isAuto) ev n st =
      ([EvUpdate \<lparr>upd_is_completed = True\<rparr> [Eq ''id'' (IdVal (id session))],
        EvInsertSubmission (submissionRow session qs ans aid usr grade isAuto)],
       Inl (Postgrest e),
       snd (store_update \<lparr>upd_is_completed = True\<rparr> [Eq ''id'' (IdVal (id session))] st))"
    if "fault ev (Suc n) = Some e"
    using assms that
    by (simp add: submitTest_try_def completeTestSession_def split_def)
  have reported: "run_store (submitTest (Some session) qs ans aid usr grade isAuto) ev n st =
      ([EvEffect (SetSubmitting True),
        EvUpdate \<lparr>upd_is_completed = True\<rparr> [Eq ''id'' (IdVal (id session))],
        EvInsertSubmission (submissionRow session qs ans aid usr grade isAuto),
        EvEffect (SetError (''Error submitting test: '' @ messageOrUnknown (Postgrest e))),
        EvEffect (Alert ''Error submitting test. Please try again.''),
        EvEffect (SetSubmitting False)],
       Inr (),
       snd (store_update \<lparr>upd_is_completed = True\<rparr> [Eq ''id'' (IdVal (id session))] st))"
    if "fault ev (Suc n) = Some e"
    using assms that
    by (simp add: submitTest_def submitTest_try_def submitTest_catch_def
        completeTestSession_def split_def)
  have submitted: "run_store (submitTest (Some session) qs ans aid usr grade isAuto) ev n st =
      ([EvEffect (SetSubmitting True),
        EvUpdate \<lparr>upd_is_completed = True\<rparr> [Eq ''id'' (IdVal (id session))],
        EvInsertSubmission (submissionRow session qs ans aid usr grade isAuto),
        EvEffect (Alert (if isAuto then ''Test auto-submitted due to time expiry!''
                         else ''Test submitted successfully!'')),
        EvEffect (NavigateResults (next_id st)),
        EvEffect (SetSubmitting False)],
       Inr (),
       snd (store_insert_submission (submissionRow session qs ans aid usr grade isAuto)
         (snd (store_update \<lparr>upd_is_completed = True\<rparr> [Eq ''id'' (IdVal (id session))] st))))"
    if "fault ev (Suc n) = None"
    using assms that
    by (simp add: submitTest_def submitTest_try_def submitTest_catch_def
        completeTestSession_def split_def store_insert_submission_def Let_def next_id)
  show ?thesis
    using failed reported submitted store_update_completes [of "id session" st]
    by blast
qed

theorem submitTest_reports_failed_submission_witness:
  "fault second_request_fails 0 = None \<and>
   fault second_request_fails (Suc 0) = Some permission_denied \<and>
   run_store (submitTest (Some active_session) [] [] ''A'' student no_grading False)
       second_request_fails 0 store_active =
     ([EvEffect (SetSubmitting True),
       EvUpdate \<lparr>upd_is_completed = True\<rparr> [Eq ''id'' (IdVal 2)],
       EvInsertSubmission (submissionRow active_session [] [] ''A'' student no_grading False),
       EvEffect (SetError ''Error submitting test: permission denied for table test_sessions''),
       EvEffect (Alert ''Error submitting test. Please try again.''),
       EvEffect (SetSubmitting False)],
      Inr (),
      \<lparr>sessions = [completed_session,
                   active_session\<lparr>submitted_at := Some 800000, is_completed := True\<rparr>],
       submissions = [], next_id = 3, clock = 800000\<rparr>)"
  using submitTest_reports_failed_submission
    [of second_request_fails 0 permission_denied active_session "[]" "[]" "''A''" student
        no_grading False store_active]
  by (simp add: second_request_fails_def permission_denied_def messageOrUnknown_def
      store_update_def store_active_def active_session_def completed_session_def column_def)


section \<open>Claims about concurrent calls\<close>

inductive_cases settles_GetUserE: "settles a usr n act (GetUser k)"
inductive_cases settles_SelectE: "settles a usr n act (SelectSession fs c k)"
inductive_cases settles_InsertE: "settles a usr n act (InsertSession new k)"
inductive_cases settles_UpdateE: "settles a usr n act (UpdateSession upd fs k)"
inductive_cases settles_SubmissionE: "settles a usr n act (InsertSubmission sub k)"
inductive_cases settles_TimeoutE: "settles a usr n act (SetTimeout ms p)"
inductive_cases settles_EffectE: "settles a usr n act (Effect eff p)"








lemma the_active_clock [simp]:
  "the_active a u (st\<lparr>clock := t\<rparr>) = the_active a u st"
  by (simp add: the_active_def)



lemma length_step_client [simp]: "length (snd (step_client usr i c)) = length (snd c)"
  by (simp add: step_client_def)









section \<open>Claims about the countdown driver\<close>

lemma counts_simps [simp]:
  "expiries [] = 0"
  "expiries (Expired # h) = Suc (expiries h)"
  "expiries (SubmitTestCalled a t # h) = expiries h"
  "expiries (h @ h') = expiries h + expiries h'"
  "auto_calls [] = 0"
  "auto_calls (Expired # h) = auto_calls h"
  "auto_calls (SubmitTestCalled True t # h) = Suc (auto_calls h)"
  "auto_calls (SubmitTestCalled False t # h) = auto_calls h"
  "auto_calls (h @ h') = auto_calls h + auto_calls h'"
  "manual_calls [] = 0"
  "manual_calls (Expired # h) = manual_calls h"
  "manual_calls (SubmitTestCalled True t # h) = manual_calls h"
  "manual_calls (SubmitTestCalled False t # h) = Suc (manual_calls h)"
  "manual_calls (h @ h') = manual_calls h + manual_calls h'"
  "submit_calls [] = 0"
  "submit_calls (Expired # h) = submit_calls h"
  "submit_calls (SubmitTestCalled a t # h) = Suc (submit_calls h)"
  "submit_calls (h @ h') = submit_calls h + submit_calls h'"
  by (simp_all add: expiries_def auto_calls_def manual_calls_def submit_calls_def)

















lemma calculateRemainingTime_active_session [simp]:
  "calculateRemainingTime active_session 3000000 = 0"
  "calculateRemainingTime active_session 900000 = 1600"
  by (simp_all add: calculateRemainingTime_div active_session_def)







end
